theory Spec2Isabelle
  imports Main "HOL-Library.Word"
begin

section \<open>Python values, text and exceptions\<close>

text \<open>
  A Python \<open>str\<close> is a sequence of Unicode code points, so text is a list of naturals
  (not of 8-bit characters); \<open>u\<close> reads an ASCII literal of the source as such a text.
  Bytes (the content of a file on disk, of a \<open>BytesIO\<close>) are 8-bit words.
\<close>

type_synonym pystr = "nat list"

type_synonym byte = "8 word"

definition u :: "string \<Rightarrow> pystr" where
  "u s = map of_char s"

abbreviation LF :: nat where "LF \<equiv> 10"
abbreviation CR :: nat where "CR \<equiv> 13"
abbreviation COMMA :: nat where "COMMA \<equiv> 44"
abbreviation DQUOTE :: nat where "DQUOTE \<equiv> 34"

text \<open>
  The values that the configuration store, the history tuples and the rows of the export
  table hold. \<open>truthy\<close> is Python's truth test (\<open>if x:\<close>, \<open>not x\<close>).
\<close>

datatype pyval = PNone | PBool bool | PInt int | PStr pystr

fun truthy :: "pyval \<Rightarrow> bool" where
  "truthy PNone = False"
| "truthy (PBool b) = b"
| "truthy (PInt i) = (i \<noteq> 0)"
| "truthy (PStr s) = (s \<noteq> [])"

datatype exn =
    AttributeError pystr
  | TypeError pystr
  | ValueError pystr
  | OSError pystr
  | UnicodeEncodeError pystr
  | FTPError pystr

fun str_exn :: "exn \<Rightarrow> pystr" where
  "str_exn (AttributeError m) = m"
| "str_exn (TypeError m) = m"
| "str_exn (ValueError m) = m"
| "str_exn (OSError m) = m"
| "str_exn (UnicodeEncodeError m) = m"
| "str_exn (FTPError m) = m"

text \<open>\<open>str(n)\<close> for an integer: decimal digits, a leading minus sign when negative.\<close>

function digits :: "nat \<Rightarrow> pystr" where
  "digits n = (if n < 10 then [48 + n] else digits (n div 10) @ [48 + n mod 10])"
  by pat_completeness auto
termination
  by (relation "measure id") auto

declare digits.simps [simp del]

definition str_int :: "int \<Rightarrow> pystr" where
  "str_int i = (if i < 0 then 45 # digits (nat (- i)) else digits (nat i))"

fun py_str :: "pyval \<Rightarrow> pystr" where
  "py_str PNone = u ''None''"
| "py_str (PBool b) = (if b then u ''True'' else u ''False'')"
| "py_str (PInt i) = str_int i"
| "py_str (PStr s) = s"

section \<open>The csv writer of the standard library, as both sinks configure it\<close>

text \<open>
  \<open>csv.writer(f, lineterminator='\n')\<close>: the excel dialect (delimiter comma, quote
  character \<open>"\<close>, doubled quotes, minimal quoting) with the line terminator \<open>\n\<close>.
  \<open>writerow\<close> turns a field into text (\<open>None\<close> is the empty text, a string is itself,
  anything else goes through \<open>str\<close>), quotes a field that holds the delimiter, the quote
  character or a character of the line terminator, and doubles the quotes inside a quoted
  field. A row whose only field is empty is written as \<open>""\<close>.
\<close>

fun field_text :: "pyval \<Rightarrow> pystr" where
  "field_text PNone = []"
| "field_text (PStr s) = s"
| "field_text v = py_str v"

definition must_quote :: "pystr \<Rightarrow> bool" where
  "must_quote s = list_ex (\<lambda>c. c = COMMA \<or> c = DQUOTE \<or> c = LF) s"

fun double_quotes :: "pystr \<Rightarrow> pystr" where
  "double_quotes [] = []"
| "double_quotes (c # cs) = (if c = DQUOTE then DQUOTE # DQUOTE # double_quotes cs else c # double_quotes cs)"

definition csv_field :: "pystr \<Rightarrow> pystr" where
  "csv_field s = (if must_quote s then DQUOTE # double_quotes s @ [DQUOTE] else s)"

fun join_fields :: "pystr list \<Rightarrow> pystr" where
  "join_fields [] = []"
| "join_fields [f] = f"
| "join_fields (f # g # fs) = f @ COMMA # join_fields (g # fs)"

definition writerow :: "pyval list \<Rightarrow> pystr" where
  "writerow line =
     (if map field_text line = [[]] then [DQUOTE, DQUOTE]
      else join_fields (map (csv_field \<circ> field_text) line)) @ [LF]"

text \<open>The text of the loop \<open>for line in lines: transaction.writerow(line)\<close>.\<close>

definition csv_text :: "pyval list list \<Rightarrow> pystr" where
  "csv_text lines = concat (map writerow lines)"

section \<open>The text layer under a file and under \<open>str.encode\<close>\<close>

text \<open>
  \<open>str.encode('utf-8')\<close>, code point by code point; a lone surrogate raises
  \<open>UnicodeEncodeError\<close>, and a \<open>str\<close> holds no code point from \<open>0x110000\<close> on.
\<close>

definition utf8_char :: "nat \<Rightarrow> byte list option" where
  "utf8_char c =
     (if c < 128 then Some [of_nat c]
      else if c < 2048 then Some [of_nat (192 + c div 64), of_nat (128 + c mod 64)]
      else if 55296 \<le> c \<and> c < 57344 then None
      else if c < 65536 then
        Some [of_nat (224 + c div 4096), of_nat (128 + (c div 64) mod 64), of_nat (128 + c mod 64)]
      else if c < 1114112 then
        Some [of_nat (240 + c div 262144), of_nat (128 + (c div 4096) mod 64),
              of_nat (128 + (c div 64) mod 64), of_nat (128 + c mod 64)]
      else None)"

fun encode_text :: "(nat \<Rightarrow> byte list option) \<Rightarrow> pystr \<Rightarrow> byte list option" where
  "encode_text enc [] = Some []"
| "encode_text enc (c # cs) =
     (case enc c of
        None \<Rightarrow> None
      | Some bs \<Rightarrow> (case encode_text enc cs of None \<Rightarrow> None | Some r \<Rightarrow> Some (bs @ r)))"

text \<open>
  A file opened in text mode with no \<open>newline\<close> argument writes \<open>os.linesep\<close> for each
  \<open>\n\<close>, and reads every line ending (\<open>\r\n\<close>, \<open>\r\<close>, \<open>\n\<close>) back as \<open>\n\<close>.
\<close>

fun translate_newlines :: "pystr \<Rightarrow> pystr \<Rightarrow> pystr" where
  "translate_newlines sep [] = []"
| "translate_newlines sep (c # cs) =
     (if c = LF then sep @ translate_newlines sep cs else c # translate_newlines sep cs)"

fun universal_newlines :: "pystr \<Rightarrow> pystr" where
  "universal_newlines [] = []"
| "universal_newlines [c] = (if c = CR then [LF] else [c])"
| "universal_newlines (c # d # cs) =
     (if c = CR \<and> d = LF then LF # universal_newlines cs
      else if c = CR then LF # universal_newlines (d # cs)
      else c # universal_newlines (d # cs))"

section \<open>The wallet, the host application and the platform\<close>

text \<open>
  An item of \<open>wallet.get_history()\<close>:
  \<open>(tx_hash, height, confirmations, timestamp, value, balance)\<close>.
\<close>

record tx_item =
  tx_hash :: "pystr option"
  height :: int
  confirmations :: int
  timestamp :: "int option"
  tx_value :: "int option"
  balance :: int

record wallet_obj =
  get_history :: "tx_item list"
  get_label :: "pystr \<Rightarrow> pystr"

text \<open>
  What the plugin imports and does not define: Electrum's \<open>format_time\<close>,
  \<open>format_satoshis\<close> and \<open>_\<close>, and from Python and the operating system
  \<open>os.path.join\<close>, \<open>os.linesep\<close>, the encoding of a text file (per code point; \<open>None\<close>
  when the code point has no encoding), whether \<open>open\<close> of a path for writing is refused,
  the built-in \<open>int\<close>, and whether the FTP server refuses a step.
\<close>

datatype ftp_event =
    Connect pyval int
  | Login pyval pyval
  | Cwd pyval
  | Storlines pystr "byte list"
  | Close

record env =
  format_time :: "int \<Rightarrow> pystr"
  format_satoshis :: "int \<Rightarrow> bool \<Rightarrow> pystr"
  gettext :: "pystr \<Rightarrow> pystr"
  path_join :: "pystr \<Rightarrow> pystr \<Rightarrow> pystr"
  linesep :: pystr
  encode_char :: "nat \<Rightarrow> byte list option"
  open_refused :: "pystr \<Rightarrow> exn option"
  to_int :: "pyval \<Rightarrow> exn + int"
  ftp_refused :: "ftp_event \<Rightarrow> exn option"

section \<open>The plugin object and the world it acts on\<close>

datatype icon = Status_connected | Status_disconnected

record status_button_obj =
  tooltip :: pystr
  icon :: icon

text \<open>
  The fields of \<open>Plugin\<close>. \<open>timer\<close> holds the cancel handle that \<open>call_repeatedly\<close>
  returned (the \<open>set\<close> method of the thread's event), here the index of the thread.
\<close>

record plugin =
  config :: "string \<rightharpoonup> pyval"
  wallet :: "wallet_obj option"
  timer :: "nat option"
  window :: "nat option"
  status_button :: "status_button_obj option"
  autoexport_interval_seconds :: pyval
  autoexport_need_export_to_local :: pyval
  autoexport_need_export_to_ftp :: pyval
  autoexport_local_path :: pyval
  autoexport_ftp_host :: pyval
  autoexport_ftp_port :: pyval
  autoexport_ftp_user :: pyval
  autoexport_ftp_password :: pyval
  autoexport_ftp_dir :: pyval

text \<open>
  A thread started by \<open>call_repeatedly\<close>: its interval and the flag of its
  \<open>threading.Event\<close>.
\<close>

record timer_thread =
  interval :: pyval
  stopped :: bool

text \<open>
  Everything outside the plugin object that the plugin changes or reads: what
  \<open>time.strftime("%Y_%m_%d__%H_%M_%S")\<close> returns now, the files on disk, the calls made
  to the FTP server, how often the wallet's history was read, the messages given to
  \<open>print_error\<close>, and the timer threads.
\<close>

record world =
  clock :: pystr
  files :: "pystr \<rightharpoonup> byte list"
  ftp_trace :: "ftp_event list"
  wallet_reads :: nat
  errors_logged :: "pystr list"
  threads :: "timer_thread list"

definition print_error :: "pystr \<Rightarrow> world \<Rightarrow> world" where
  "print_error msg w = w\<lparr>errors_logged := errors_logged w @ [msg]\<rparr>"

section \<open>The repeating timer\<close>

text \<open>
  The body of \<open>loop\<close> in \<open>call_repeatedly\<close>:
  \<^verbatim>\<open>while not stopped.wait(interval): func(*args)\<close>.
  The first argument lists what the successive calls of \<open>stopped.wait(interval)\<close>
  return (\<open>True\<close>: the event was set; \<open>False\<close>: the interval elapsed); the callback
  either returns a new state or raises with the state it reached. The result says how
  the thread stands after these waits, with the number of invocations of the callback.
\<close>

datatype 's loop_end = Exited 's nat | Crashed exn 's nat | Waiting 's nat

fun loop :: "bool list \<Rightarrow> ('s \<Rightarrow> exn \<times> 's + 's) \<Rightarrow> 's \<Rightarrow> nat \<Rightarrow> 's loop_end" where
  "loop [] func s n = Waiting s n"
| "loop (is_set # waits) func s n =
     (if is_set then Exited s n
      else (case func s of
              Inl (e, s') \<Rightarrow> Crashed e s' (Suc n)
            | Inr s' \<Rightarrow> loop waits func s' (Suc n)))"

text \<open>
  \<open>call_repeatedly\<close> starts the thread and returns \<open>stopped.set\<close>; calling the handle
  sets the flag (\<open>cancel\<close>).
\<close>

definition call_repeatedly :: "pyval \<Rightarrow> world \<Rightarrow> nat \<times> world" where
  "call_repeatedly secs w =
     (length (threads w), w\<lparr>threads := threads w @ [\<lparr>interval = secs, stopped = False\<rparr>]\<rparr>)"

definition cancel :: "nat \<Rightarrow> world \<Rightarrow> world" where
  "cancel h w =
     (if h < length (threads w)
      then w\<lparr>threads := (threads w)[h := (threads w ! h)\<lparr>stopped := True\<rparr>]\<rparr>
      else w)"

definition live_timers :: "world \<Rightarrow> timer_thread list" where
  "live_timers w = filter (\<lambda>t. \<not> stopped t) (threads w)"

section \<open>The formatter\<close>

text \<open>
  \<open>Plugin.get_exported_data\<close>. The loop body builds one row from one history item;
  \<open>self.wallet\<close> is \<open>None\<close> while no wallet is loaded, and \<open>None.get_history()\<close>
  raises \<open>AttributeError\<close>.
\<close>

definition header_row :: "pyval list" where
  "header_row =
     [PStr (u ''transaction_hash''), PStr (u ''label''), PStr (u ''confirmations''),
      PStr (u ''value''), PStr (u ''timestamp'')]"

definition exported_row :: "env \<Rightarrow> wallet_obj \<Rightarrow> tx_item \<Rightarrow> pyval list" where
  "exported_row ev wl item =
     (let time_string =
            (if height item > 0
             then (case timestamp item of
                     Some t \<Rightarrow> format_time ev t
                   | None \<Rightarrow> gettext ev (u ''unverified''))
             else gettext ev (u ''unconfirmed''));
          value_string =
            (case tx_value item of
               Some v \<Rightarrow> format_satoshis ev v True
             | None \<Rightarrow> u ''--'');
          label =
            (case tx_hash item of
               None \<Rightarrow> []
             | Some h \<Rightarrow> if h \<noteq> [] then get_label wl h else [])
      in [case tx_hash item of None \<Rightarrow> PNone | Some h \<Rightarrow> PStr h,
          PStr label, PInt (confirmations item), PStr value_string, PStr time_string])"

definition get_exported_data :: "env \<Rightarrow> plugin \<Rightarrow> exn + pyval list list" where
  "get_exported_data ev p =
     (case wallet p of
        None \<Rightarrow> Inl (AttributeError (u ''get_history''))
      | Some wl \<Rightarrow> Inr (header_row # map (exported_row ev wl) (get_history wl)))"

section \<open>The local sink\<close>

text \<open>
  The loop of \<open>export_csv_local\<close> over the open file: each \<open>writerow\<close> hands one line
  to the text file, which translates the newlines and encodes the line; a line that cannot
  be encoded raises, and the lines written before it stay in the file.
\<close>

fun write_rows :: "env \<Rightarrow> pyval list list \<Rightarrow> byte list \<Rightarrow> exn \<times> byte list + byte list" where
  "write_rows ev [] content = Inr content"
| "write_rows ev (line # lines) content =
     (case encode_text (encode_char ev) (translate_newlines (linesep ev) (writerow line)) of
        None \<Rightarrow> Inl (UnicodeEncodeError (u ''codec''), content)
      | Some bs \<Rightarrow> write_rows ev lines (content @ bs))"

text \<open>
  The \<open>try\<close> block of \<open>export_csv_local\<close>: \<open>Inl\<close> is an exception raised inside it,
  with the world as it stands then. Mode \<open>"w+"\<close> creates the file or truncates it.
\<close>

definition export_csv_local_try :: "env \<Rightarrow> plugin \<Rightarrow> world \<Rightarrow> exn \<times> world + world" where
  "export_csv_local_try ev p w =
     (if \<not> truthy (autoexport_local_path p) then Inr w
      else
        let filename = clock w @ u ''.csv'' in
        (case autoexport_local_path p of
           PStr dir \<Rightarrow>
             (let filepath = path_join ev dir filename in
              (case get_exported_data ev p of
                 Inl e \<Rightarrow> Inl (e, w)
               | Inr lines \<Rightarrow>
                   (let w1 = w\<lparr>wallet_reads := Suc (wallet_reads w)\<rparr> in
                    (case open_refused ev filepath of
                       Some e \<Rightarrow> Inl (e, w1)
                     | None \<Rightarrow>
                         (case write_rows ev lines [] of
                            Inl (e, content) \<Rightarrow> Inl (e, w1\<lparr>files := (files w1)(filepath \<mapsto> content)\<rparr>)
                          | Inr content \<Rightarrow> Inr (w1\<lparr>files := (files w1)(filepath \<mapsto> content)\<rparr>))))))
         | _ \<Rightarrow> Inl (TypeError (u ''join''), w)))"

text \<open>\<open>export_csv_local\<close>: the \<open>try\<close> block and its \<open>except Exception\<close> handler.\<close>

definition export_csv_local :: "env \<Rightarrow> plugin \<Rightarrow> world \<Rightarrow> world" where
  "export_csv_local ev p w =
     (case export_csv_local_try ev p w of
        Inl (e, w') \<Rightarrow> print_error (str_exn e) w'
      | Inr w' \<Rightarrow> w')"

section \<open>The FTP sink\<close>

text \<open>A call to the FTP server: it is recorded, and the server may refuse it.\<close>

definition ftp_call :: "env \<Rightarrow> ftp_event \<Rightarrow> world \<Rightarrow> exn \<times> world + world" where
  "ftp_call ev c w =
     (let w' = w\<lparr>ftp_trace := ftp_trace w @ [c]\<rparr> in
      case ftp_refused ev c of Some e \<Rightarrow> Inl (e, w') | None \<Rightarrow> Inr w')"

definition and_then :: "'e + 'a \<Rightarrow> ('a \<Rightarrow> 'e + 'b) \<Rightarrow> 'e + 'b" where
  "and_then m f = (case m of Inl e \<Rightarrow> Inl e | Inr a \<Rightarrow> f a)"

text \<open>
  The buffer \<open>BytesIO(str_f.getvalue().encode('utf-8'))\<close> that \<open>export_csv_ftp\<close> builds
  from the lines written to the \<open>StringIO\<close>.
\<close>

definition ftp_buffer :: "pyval list list \<Rightarrow> byte list option" where
  "ftp_buffer lines = encode_text utf8_char (csv_text lines)"

definition export_csv_ftp_try :: "env \<Rightarrow> plugin \<Rightarrow> world \<Rightarrow> exn \<times> world + world" where
  "export_csv_ftp_try ev p w =
     (if \<not> truthy (autoexport_ftp_host p) then Inr w
      else if \<not> truthy (autoexport_ftp_port p) then Inr w
      else if \<not> truthy (autoexport_ftp_user p) then Inr w
      else if \<not> truthy (autoexport_ftp_password p) then Inr w
      else
        let filename = clock w @ u ''.csv'' in
        (case get_exported_data ev p of
           Inl e \<Rightarrow> Inl (e, w)
         | Inr lines \<Rightarrow>
             (let w1 = w\<lparr>wallet_reads := Suc (wallet_reads w)\<rparr> in
              (case to_int ev (autoexport_ftp_port p) of
                 Inl e \<Rightarrow> Inl (e, w1)
               | Inr port \<Rightarrow>
                   and_then (ftp_call ev (Connect (autoexport_ftp_host p) port) w1) (\<lambda>w2.
                   and_then (ftp_call ev (Login (autoexport_ftp_user p) (autoexport_ftp_password p)) w2) (\<lambda>w3.
                   and_then (if truthy (autoexport_ftp_dir p)
                             then ftp_call ev (Cwd (autoexport_ftp_dir p)) w3 else Inr w3) (\<lambda>w4.
                   (case ftp_buffer lines of
                      None \<Rightarrow> Inl (UnicodeEncodeError (u ''utf-8''), w4)
                    | Some f \<Rightarrow>
                        and_then (ftp_call ev (Storlines (u ''STOR '' @ filename) f) w4) (\<lambda>w5.
                        Inr (w5\<lparr>ftp_trace := ftp_trace w5 @ [Close]\<rparr>))))))))))"

definition export_csv_ftp :: "env \<Rightarrow> plugin \<Rightarrow> world \<Rightarrow> world" where
  "export_csv_ftp ev p w =
     (case export_csv_ftp_try ev p w of
        Inl (e, w') \<Rightarrow> print_error (str_exn e) w'
      | Inr w' \<Rightarrow> w')"

section \<open>The coordinator\<close>

definition auto_export_enabled :: "plugin \<Rightarrow> bool" where
  "auto_export_enabled p =
     (truthy (autoexport_need_export_to_local p) \<or> truthy (autoexport_need_export_to_ftp p))"

definition export_csv :: "env \<Rightarrow> plugin \<Rightarrow> world \<Rightarrow> world" where
  "export_csv ev p w =
     (let w1 = (if truthy (autoexport_need_export_to_local p) then export_csv_local ev p w else w)
      in if truthy (autoexport_need_export_to_ftp p) then export_csv_ftp ev p w1 else w1)"

section \<open>The hooks and the settings\<close>

definition config_get :: "(string \<rightharpoonup> pyval) \<Rightarrow> string \<Rightarrow> pyval \<Rightarrow> pyval" where
  "config_get c k d = (case c k of None \<Rightarrow> d | Some v \<Rightarrow> v)"

text \<open>The text and icon that \<open>create_status_bar\<close> and \<open>update_settings\<close> both compute.\<close>

definition enabled_status :: "env \<Rightarrow> plugin \<Rightarrow> status_button_obj" where
  "enabled_status ev p =
     \<lparr>tooltip = gettext ev (u ''AutoExport: '' @ py_str (autoexport_interval_seconds p) @ u ''sec.''),
      icon = Status_connected\<rparr>"

definition disabled_status :: "env \<Rightarrow> status_button_obj" where
  "disabled_status ev = \<lparr>tooltip = gettext ev (u ''AutoExport''), icon = Status_disconnected\<rparr>"

definition create_status_bar :: "env \<Rightarrow> plugin \<Rightarrow> plugin" where
  "create_status_bar ev p =
     (if truthy (autoexport_interval_seconds p) \<and> auto_export_enabled p
      then p\<lparr>status_button := Some (enabled_status ev p)\<rparr>
      else p\<lparr>status_button := Some (disabled_status ev)\<rparr>)"

definition load_wallet :: "wallet_obj option \<Rightarrow> nat \<Rightarrow> plugin \<Rightarrow> world \<Rightarrow> plugin \<times> world" where
  "load_wallet wl win p w =
     (let p1 = p\<lparr>window := Some win, wallet := wl\<rparr> in
      if wallet p1 = None \<or> \<not> truthy (autoexport_interval_seconds p1) then (p1, w)
      else (case call_repeatedly (autoexport_interval_seconds p1) w of
              (h, w') \<Rightarrow> (p1\<lparr>timer := Some h\<rparr>, w')))"

definition close_wallet :: "plugin \<Rightarrow> world \<Rightarrow> plugin \<times> world" where
  "close_wallet p w =
     (let p1 = p\<lparr>wallet := None\<rparr> in
      case timer p1 of Some h \<Rightarrow> (p1, cancel h w) | None \<Rightarrow> (p1, w))"

text \<open>
  \<open>update_settings\<close>. The result carries the exception that the last statement raises
  when \<open>self.status_button\<close> was never created (\<open>AttributeError\<close>).
\<close>

definition read_settings :: "plugin \<Rightarrow> plugin" where
  "read_settings p =
     p\<lparr>autoexport_interval_seconds := config_get (config p) ''autoexport_interval_seconds'' (PInt 0),
       autoexport_need_export_to_local := config_get (config p) ''autoexport_need_export_to_local'' (PBool False),
       autoexport_need_export_to_ftp := config_get (config p) ''autoexport_need_export_to_ftp'' (PBool False),
       autoexport_local_path := config_get (config p) ''autoexport_local_path'' (PStr []),
       autoexport_ftp_host := config_get (config p) ''autoexport_ftp_host'' (PStr []),
       autoexport_ftp_port := config_get (config p) ''autoexport_ftp_port'' (PInt 21),
       autoexport_ftp_user := config_get (config p) ''autoexport_ftp_user'' (PStr []),
       autoexport_ftp_password := config_get (config p) ''autoexport_ftp_password'' (PStr []),
       autoexport_ftp_dir := config_get (config p) ''autoexport_ftp_dir'' (PStr [])\<rparr>"

definition update_settings :: "env \<Rightarrow> bool \<Rightarrow> plugin \<Rightarrow> world \<Rightarrow> exn option \<times> plugin \<times> world" where
  "update_settings ev initial p w =
     (let p1 = read_settings p;
          w1 = (case timer p1 of Some h \<Rightarrow> cancel h w | None \<Rightarrow> w);
          p2 = p1\<lparr>timer := None\<rparr>
      in if initial \<or> wallet p2 = None \<or> \<not> truthy (autoexport_interval_seconds p2)
         then (None, p2, w1)
         else (case call_repeatedly (autoexport_interval_seconds p2) w1 of
                 (h, w2) \<Rightarrow>
                   (let p3 = p2\<lparr>timer := Some h\<rparr> in
                    case status_button p3 of
                      None \<Rightarrow> (Some (AttributeError (u ''status_button'')), p3, w2)
                    | Some b \<Rightarrow>
                        if truthy (autoexport_interval_seconds p3) \<and> auto_export_enabled p3
                        then (None, p3\<lparr>status_button := Some (enabled_status ev p3)\<rparr>, w2)
                        else (None, p3\<lparr>status_button := Some (disabled_status ev)\<rparr>, w2))))"

text \<open>
  The part of \<open>settings_dialog\<close> after the form: nothing happens when the dialog is
  dismissed (\<open>None\<close>); otherwise the nine keys are stored (the interval through \<open>int\<close>,
  \<open>0\<close> when that raises; the port as the text of its field) and \<open>update_settings()\<close>
  runs.
\<close>

record dialog_input =
  export_interval_seconds :: pystr
  export_need_export_to_ftp :: bool
  export_need_export_to_local :: bool
  export_local_path :: pystr
  export_ftp_host :: pystr
  export_ftp_port :: pystr
  export_ftp_user :: pystr
  export_ftp_password :: pystr
  export_ftp_dir :: pystr

definition set_keys :: "env \<Rightarrow> dialog_input \<Rightarrow> (string \<rightharpoonup> pyval) \<Rightarrow> (string \<rightharpoonup> pyval)" where
  "set_keys ev d c =
     (let int_export_interval_seconds =
            (case to_int ev (PStr (export_interval_seconds d)) of Inl e \<Rightarrow> 0 | Inr n \<Rightarrow> n)
      in c(''autoexport_interval_seconds'' \<mapsto> PInt int_export_interval_seconds,
           ''autoexport_need_export_to_ftp'' \<mapsto> PBool (export_need_export_to_ftp d),
           ''autoexport_need_export_to_local'' \<mapsto> PBool (export_need_export_to_local d),
           ''autoexport_local_path'' \<mapsto> PStr (export_local_path d),
           ''autoexport_ftp_host'' \<mapsto> PStr (export_ftp_host d),
           ''autoexport_ftp_port'' \<mapsto> PStr (export_ftp_port d),
           ''autoexport_ftp_user'' \<mapsto> PStr (export_ftp_user d),
           ''autoexport_ftp_password'' \<mapsto> PStr (export_ftp_password d),
           ''autoexport_ftp_dir'' \<mapsto> PStr (export_ftp_dir d)))"

definition settings_dialog ::
  "env \<Rightarrow> dialog_input option \<Rightarrow> plugin \<Rightarrow> world \<Rightarrow> exn option \<times> plugin \<times> world" where
  "settings_dialog ev accepted p w =
     (case accepted of
        None \<Rightarrow> (None, p, w)
      | Some d \<Rightarrow> update_settings ev False (p\<lparr>config := set_keys ev d (config p)\<rparr>) w)"

text \<open>
  \<open>Plugin.__init__\<close>: the class attributes \<open>wallet = None\<close> and \<open>timer = None\<close>, the
  configuration the host hands over, and \<open>update_settings(initial=True)\<close>. The fields
  that \<open>update_settings\<close> assigns do not exist before it runs.
\<close>

definition init_plugin :: "env \<Rightarrow> (string \<rightharpoonup> pyval) \<Rightarrow> world \<Rightarrow> plugin \<times> world" where
  "init_plugin ev c w =
     snd (update_settings ev True
       \<lparr>config = c, wallet = None, timer = None, window = None, status_button = None,
        autoexport_interval_seconds = PNone, autoexport_need_export_to_local = PNone,
        autoexport_need_export_to_ftp = PNone, autoexport_local_path = PNone,
        autoexport_ftp_host = PNone, autoexport_ftp_port = PNone, autoexport_ftp_user = PNone,
        autoexport_ftp_password = PNone, autoexport_ftp_dir = PNone\<rparr> w)"

section \<open>Reading a written file back\<close>

text \<open>
  The reader of the standard library (\<open>csv.reader\<close>, excel dialect, not strict) over a
  file opened in text mode, where every line ending has become \<open>\n\<close>: its states and its
  transitions, one character at a time. A record ends at a \<open>\n\<close> outside quotes; an
  empty line is the empty row; at the end of the input an unfinished record is returned.
\<close>

datatype reader_state =
  START_RECORD | START_FIELD | IN_FIELD | IN_QUOTED_FIELD | QUOTE_IN_QUOTED_FIELD

fun parse :: "reader_state \<Rightarrow> pystr \<Rightarrow> pystr list \<Rightarrow> pystr \<Rightarrow> pystr list list" where
  "parse START_RECORD fld flds [] = []"
| "parse START_FIELD fld flds [] = [flds @ [fld]]"
| "parse IN_FIELD fld flds [] = [flds @ [fld]]"
| "parse IN_QUOTED_FIELD fld flds [] = [flds @ [fld]]"
| "parse QUOTE_IN_QUOTED_FIELD fld flds [] = [flds @ [fld]]"
| "parse START_RECORD fld flds (c # cs) =
     (if c = LF then [] # parse START_RECORD [] [] cs
      else if c = DQUOTE then parse IN_QUOTED_FIELD [] flds cs
      else if c = COMMA then parse START_FIELD [] (flds @ [[]]) cs
      else parse IN_FIELD [c] flds cs)"
| "parse START_FIELD fld flds (c # cs) =
     (if c = LF then (flds @ [[]]) # parse START_RECORD [] [] cs
      else if c = DQUOTE then parse IN_QUOTED_FIELD [] flds cs
      else if c = COMMA then parse START_FIELD [] (flds @ [[]]) cs
      else parse IN_FIELD [c] flds cs)"
| "parse IN_FIELD fld flds (c # cs) =
     (if c = LF then (flds @ [fld]) # parse START_RECORD [] [] cs
      else if c = COMMA then parse START_FIELD [] (flds @ [fld]) cs
      else parse IN_FIELD (fld @ [c]) flds cs)"
| "parse IN_QUOTED_FIELD fld flds (c # cs) =
     (if c = DQUOTE then parse QUOTE_IN_QUOTED_FIELD fld flds cs
      else parse IN_QUOTED_FIELD (fld @ [c]) flds cs)"
| "parse QUOTE_IN_QUOTED_FIELD fld flds (c # cs) =
     (if c = DQUOTE then parse IN_QUOTED_FIELD (fld @ [DQUOTE]) flds cs
      else if c = COMMA then parse START_FIELD [] (flds @ [fld]) cs
      else if c = LF then (flds @ [fld]) # parse START_RECORD [] [] cs
      else parse IN_FIELD (fld @ [c]) flds cs)"

text \<open>How the reader goes on after a field that ends at the character \<open>c\<close>.\<close>

definition after_field :: "nat \<Rightarrow> pystr list \<Rightarrow> pystr \<Rightarrow> pystr list list" where
  "after_field c flds rest =
     (if c = COMMA then parse START_FIELD [] flds rest else flds # parse START_RECORD [] [] rest)"

definition csv_reader :: "pystr \<Rightarrow> pystr list list" where
  "csv_reader txt = parse START_RECORD [] [] (universal_newlines txt)"

text \<open>
  Writing a table with the local sink's loop and reading the file back: the bytes are
  decoded (\<open>dec\<close>; \<open>None\<close> when they cannot be) and the text goes through the reader.
\<close>

definition local_round_trip ::
  "env \<Rightarrow> (byte list \<Rightarrow> pystr option) \<Rightarrow> pyval list list \<Rightarrow> pystr list list option" where
  "local_round_trip ev dec lines =
     (case write_rows ev lines [] of
        Inl e \<Rightarrow> None
      | Inr content \<Rightarrow> map_option csv_reader (dec content))"

text \<open>
  The comparison of the two sinks' bytes for one table: equal when both can be built,
  and neither built when one cannot.
\<close>

definition same_bytes :: "env \<Rightarrow> pyval list list \<Rightarrow> bool" where
  "same_bytes ev lines =
     (case ftp_buffer lines of
        Some b \<Rightarrow> (case write_rows ev lines [] of Inl e \<Rightarrow> False | Inr c \<Rightarrow> b = c)
      | None \<Rightarrow> (case write_rows ev lines [] of Inl e \<Rightarrow> True | Inr c \<Rightarrow> False))"

section \<open>Concrete inputs\<close>

text \<open>
  Inputs at which the theorems below are evaluated: a POSIX platform with a UTF-8 locale,
  the same with the line separator of Windows, one whose disk refuses every \<open>open\<close>, a
  wallet whose history has an item with an empty hash, no value and no timestamp, and a
  table with a label that holds a comma, quotes and a newline, and a configuration with
  interval 5 and the local sink enabled. \<open>int\<close> is given on the decimal texts and
  integers that these inputs use; \<open>format_time\<close> and \<open>format_satoshis\<close> are stand-ins
  for Electrum's.
\<close>

fun decimal :: "pystr \<Rightarrow> nat \<Rightarrow> nat option" where
  "decimal [] acc = Some acc"
| "decimal (c # cs) acc = (if 48 \<le> c \<and> c \<le> 57 then decimal cs (10 * acc + (c - 48)) else None)"

definition demo_int :: "pyval \<Rightarrow> exn + int" where
  "demo_int v =
     (case v of
        PInt n \<Rightarrow> Inr n
      | PBool b \<Rightarrow> Inr (if b then 1 else 0)
      | PNone \<Rightarrow> Inl (TypeError (u ''int''))
      | PStr s \<Rightarrow>
          (if s = [] then Inl (ValueError (u ''int''))
           else (case decimal s 0 of None \<Rightarrow> Inl (ValueError (u ''int'')) | Some n \<Rightarrow> Inr (int n))))"

definition posix_join :: "pystr \<Rightarrow> pystr \<Rightarrow> pystr" where
  "posix_join dir name = (if dir \<noteq> [] \<and> last dir = 47 then dir @ name else dir @ 47 # name)"

definition posix_env :: env where
  "posix_env =
     \<lparr>format_time = (\<lambda>t. u ''2023-07-22 04:26''),
      format_satoshis = (\<lambda>v is_diff. str_int v),
      gettext = (\<lambda>s. s),
      path_join = posix_join,
      linesep = [LF],
      encode_char = utf8_char,
      open_refused = (\<lambda>path. None),
      to_int = demo_int,
      ftp_refused = (\<lambda>c. None)\<rparr>"

definition windows_env :: env where
  "windows_env = posix_env\<lparr>linesep := [CR, LF]\<rparr>"

definition readonly_env :: env where
  "readonly_env = posix_env\<lparr>open_refused := (\<lambda>path. Some (OSError (u ''Permission denied'')))\<rparr>"

definition ascii_decode :: "byte list \<Rightarrow> pystr option" where
  "ascii_decode bs = (if list_all (\<lambda>b. b < 128) bs then Some (map unat bs) else None)"

definition demo_wallet :: wallet_obj where
  "demo_wallet =
     \<lparr>get_history =
        [\<lparr>tx_hash = Some (u ''abc123''), height = 100, confirmations = 3,
          timestamp = Some 1690000000, tx_value = Some 5000, balance = 5000\<rparr>,
         \<lparr>tx_hash = Some [], height = 0, confirmations = 0,
          timestamp = None, tx_value = None, balance = 5000\<rparr>],
      get_label = (\<lambda>h. u ''rent, May'')\<rparr>"

definition quoted_label :: pystr where
  "quoted_label = u ''rent, '' @ [DQUOTE] @ u ''May'' @ [DQUOTE, LF] @ u ''2023''"

definition demo_table :: "pyval list list" where
  "demo_table =
     [header_row,
      [PStr (u ''abc123''), PStr quoted_label, PInt 3, PStr (u ''5000''),
       PStr (u ''2023-07-22 04:26'')]]"

definition demo_world :: world where
  "demo_world =
     \<lparr>clock = u ''2023_07_22__02_13_20'', files = Map.empty, ftp_trace = [], wallet_reads = 0,
      errors_logged = [], threads = []\<rparr>"

definition demo_config :: "string \<rightharpoonup> pyval" where
  "demo_config =
     [''autoexport_interval_seconds'' \<mapsto> PInt 5,
      ''autoexport_need_export_to_local'' \<mapsto> PBool True,
      ''autoexport_local_path'' \<mapsto> PStr (u ''/tmp/out'')]"

definition demo_plugin :: plugin where
  "demo_plugin = fst (init_plugin posix_env demo_config demo_world)"

definition always_raises :: "nat \<Rightarrow> exn \<times> nat + nat" where
  "always_raises calls = Inl (ValueError (u ''boom''), Suc calls)"

definition interval_to_zero :: dialog_input where
  "interval_to_zero =
     \<lparr>export_interval_seconds = u ''0'', export_need_export_to_ftp = False,
      export_need_export_to_local = True, export_local_path = u ''/tmp/out'',
      export_ftp_host = [], export_ftp_port = u ''21'', export_ftp_user = [],
      export_ftp_password = [], export_ftp_dir = []\<rparr>"

text \<open>
  A plugin with a wallet loaded and both sinks configured, a wallet with no history, and
  the state after the status bar was created and a wallet was loaded in window 1.
\<close>

definition ftp_plugin :: plugin where
  "ftp_plugin =
     demo_plugin\<lparr>wallet := Some demo_wallet,
       autoexport_need_export_to_ftp := PBool True,
       autoexport_ftp_host := PStr (u ''ftp.example.org''),
       autoexport_ftp_port := PStr (u ''21''),
       autoexport_ftp_user := PStr (u ''alice''),
       autoexport_ftp_password := PStr (u ''secret'')\<rparr>"

definition empty_wallet :: wallet_obj where
  "empty_wallet = \<lparr>get_history = [], get_label = (\<lambda>h. [])\<rparr>"

definition loaded :: "plugin \<times> world" where
  "loaded = load_wallet (Some demo_wallet) 1 (create_status_bar posix_env demo_plugin) demo_world"

text \<open>
  The table of \<open>demo_wallet\<close>, the path of the file that an export at the time of
  \<open>demo_world\<close> writes below \<open>/tmp/out\<close>, and the world after a first export.
\<close>

definition demo_history_table :: "pyval list list" where
  "demo_history_table =
     [header_row,
      [PStr (u ''abc123''), PStr (u ''rent, May''), PInt 3, PStr (u ''5000''),
       PStr (u ''2023-07-22 04:26'')],
      [PStr [], PStr [], PInt 0, PStr (u ''--''), PStr (u ''unconfirmed'')]]"

definition csv_path :: pystr where
  "csv_path = u ''/tmp/out/2023_07_22__02_13_20.csv''"

definition first_export :: world where
  "first_export = export_csv_local posix_env ftp_plugin demo_world"

text \<open>
  Every live timer thread is the one whose handle \<open>self.timer\<close> holds.
\<close>

definition tracked :: "plugin \<Rightarrow> world \<Rightarrow> bool" where
  "tracked p w =
     list_all (\<lambda>i. stopped (threads w ! i) \<or> timer p = Some i) [0..<length (threads w)]"

section \<open>The repeating timer and exceptions\<close>

text \<open>
  Claim C1 says that an exception raised by the callback does not end the loop of
  \<open>call_repeatedly\<close>: it would be caught and logged, and the callback invoked again at
  the next interval. The loop has no handler. With a callback that raises, three elapsed
  intervals give one invocation and a dead thread.
\<close>

theorem call_repeatedly_exception_counterexample:
  "loop [False, False, False] always_raises 0 0 = Crashed (ValueError (u ''boom'')) 1 1"
  by (simp add: always_raises_def)

text \<open>
  Claim C1, as the code has it: once an invocation of the callback has raised, the
  thread has ended with that exception, and whatever intervals elapse later the callback
  is not invoked again: the state and the number of invocations stay as they were when
  it raised. Nothing is logged by the loop.
\<close>

theorem call_repeatedly_exception_ends_loop:
  "loop waits func s n = Crashed e s' k \<Longrightarrow>
     loop (waits @ later) func s n = Crashed e s' k \<and> n < k \<and> k \<le> n + length waits"
proof (induction waits arbitrary: s n)
  case Nil
  then show ?case by simp
next
  case (Cons is_set waits)
  show ?case
  proof (cases is_set)
    case True
    with Cons.prems show ?thesis by simp
  next
    case False
    show ?thesis
    proof (cases "func s")
      case (Inl a)
      with False Cons.prems show ?thesis by (cases a) auto
    next
      case (Inr s1)
      with False Cons.prems have "loop waits func s1 (Suc n) = Crashed e s' k" by simp
      from Cons.IH [OF this] Inr False show ?thesis by simp
    qed
  qed
qed

theorem call_repeatedly_exception_ends_loop_witness:
  "loop [False] always_raises 0 0 = Crashed (ValueError (u ''boom'')) 1 1 \<and>
   loop ([False] @ [False, False, True]) always_raises 0 0 = Crashed (ValueError (u ''boom'')) 1 1"
  using call_repeatedly_exception_ends_loop
    [of "[False]" always_raises 0 0 "ValueError (u ''boom'')" 1 1 "[False, False, True]"]
  by (simp add: always_raises_def)

text \<open>A callback that returns is invoked once per elapsed interval until the event is set.\<close>

lemma loop_invokes_each_interval:
  "\<forall>s. func s = Inr (step s) \<Longrightarrow>
     loop (replicate k False) func s n = Waiting ((step ^^ k) s) (n + k) \<and>
     loop (replicate k False @ True # later) func s n = Exited ((step ^^ k) s) (n + k)"
  by (induction k arbitrary: s n) (simp_all add: funpow_swap1)

section \<open>The formatter\<close>

lemma exported_row_resolved:
  "tx_hash item \<noteq> None \<Longrightarrow>
     length (exported_row ev wl item) = 5 \<and> PNone \<notin> set (exported_row ev wl item)"
  by (auto simp: exported_row_def Let_def split: option.splits)

lemma header_row_resolved: "length header_row = 5 \<and> PNone \<notin> set header_row"
  by (simp add: header_row_def)

text \<open>
  Claim C2: for every history whose items carry a hash that is a string (possibly the
  empty one), whatever their value and timestamp (possibly \<open>None\<close>), and a loaded
  wallet, \<open>get_exported_data\<close> returns a table: the header and one row per item, five
  fields each, and no field is \<open>None\<close>.
\<close>

theorem get_exported_data_resolved:
  assumes "wallet p = Some wl" and "\<forall>item\<in>set (get_history wl). tx_hash item \<noteq> None"
  shows "\<exists>t. get_exported_data ev p = Inr t \<and> length t = Suc (length (get_history wl)) \<and>
           (\<forall>row\<in>set t. length row = 5 \<and> PNone \<notin> set row)"
  using assms exported_row_resolved header_row_resolved
  by (auto simp: get_exported_data_def)

lemma demo_plugin_eval:
  "demo_plugin =
     \<lparr>config = demo_config, wallet = None, timer = None, window = None, status_button = None,
      autoexport_interval_seconds = PInt 5, autoexport_need_export_to_local = PBool True,
      autoexport_need_export_to_ftp = PBool False, autoexport_local_path = PStr (u ''/tmp/out''),
      autoexport_ftp_host = PStr [], autoexport_ftp_port = PInt 21, autoexport_ftp_user = PStr [],
      autoexport_ftp_password = PStr [], autoexport_ftp_dir = PStr []\<rparr>"
  by (simp add: demo_plugin_def init_plugin_def update_settings_def read_settings_def config_get_def
      demo_config_def Let_def)

lemma ftp_plugin_eval:
  "ftp_plugin =
     \<lparr>config = demo_config, wallet = Some demo_wallet, timer = None, window = None,
      status_button = None,
      autoexport_interval_seconds = PInt 5, autoexport_need_export_to_local = PBool True,
      autoexport_need_export_to_ftp = PBool True, autoexport_local_path = PStr (u ''/tmp/out''),
      autoexport_ftp_host = PStr (u ''ftp.example.org''), autoexport_ftp_port = PStr (u ''21''),
      autoexport_ftp_user = PStr (u ''alice''), autoexport_ftp_password = PStr (u ''secret''),
      autoexport_ftp_dir = PStr []\<rparr>"
  by (simp add: ftp_plugin_def demo_plugin_eval)

lemma get_exported_data_demo:
  "get_exported_data posix_env ftp_plugin = Inr demo_history_table"
  by (simp add: get_exported_data_def ftp_plugin_def demo_history_table_def exported_row_def
      demo_wallet_def posix_env_def Let_def str_int_def digits.simps u_def)

theorem get_exported_data_resolved_witness:
  "wallet ftp_plugin = Some demo_wallet \<and>
   (\<exists>t. get_exported_data posix_env ftp_plugin = Inr t \<and> length t = 3 \<and>
        list_all (\<lambda>row. length row = 5 \<and> PNone \<notin> set row) t)"
proof -
  have h1: "wallet ftp_plugin = Some demo_wallet"
    by (simp add: ftp_plugin_eval)
  have h2: "\<forall>item\<in>set (get_history demo_wallet). tx_hash item \<noteq> None"
    by (simp add: demo_wallet_def)
  from get_exported_data_resolved [OF h1 h2, of posix_env] h1 show ?thesis
    by (auto simp: demo_wallet_def list_all_iff)
qed

section \<open>The hooks: status indicator and timers\<close>

lemma read_settings_other [simp]:
  "timer (read_settings p) = timer p" "wallet (read_settings p) = wallet p"
  "config (read_settings p) = config p" "status_button (read_settings p) = status_button p"
  "window (read_settings p) = window p"
  by (simp_all add: read_settings_def)

lemma length_threads_cancel [simp]: "length (threads (cancel h w)) = length (threads w)"
  by (simp add: cancel_def)

lemma nth_threads_cancel:
  "i < length (threads w) \<Longrightarrow>
     threads (cancel h w) ! i =
       (if i = h then (threads w ! i)\<lparr>stopped := True\<rparr> else threads w ! i)"
  by (simp add: cancel_def nth_list_update)

lemma loaded_eval:
  "loaded =
     (demo_plugin\<lparr>window := Some 1, wallet := Some demo_wallet, timer := Some 0,
        status_button := Some \<lparr>tooltip = u ''AutoExport: 5sec.'', icon = Status_connected\<rparr>\<rparr>,
      demo_world\<lparr>threads := [\<lparr>interval = PInt 5, stopped = False\<rparr>]\<rparr>)"
  by (simp add: loaded_def demo_plugin_eval load_wallet_def call_repeatedly_def demo_world_def Let_def
      create_status_bar_def auto_export_enabled_def enabled_status_def posix_env_def
      str_int_def digits.simps u_def)

text \<open>
  Where \<open>update_settings\<close> starts a timer (a wallet is loaded, the interval is set) and
  the status button exists, it sets the icon as the claim says.
\<close>

lemma update_settings_status_when_timer_starts:
  assumes "wallet p \<noteq> None" and "status_button p \<noteq> None"
    and "truthy (config_get (config p) ''autoexport_interval_seconds'' (PInt 0))"
    and "update_settings ev False p w = (r, p', w')"
  shows "r = None \<and> map_option icon (status_button p') =
           Some (if auto_export_enabled p' then Status_connected else Status_disconnected)"
  using assms
  by (auto simp: update_settings_def Let_def read_settings_def call_repeatedly_def
      auto_export_enabled_def enabled_status_def disabled_status_def
      split: option.splits if_splits)

text \<open>
  Claim C3 says that after a settings update the indicator is connected if and only if
  the interval is set and a sink is enabled, and disconnected otherwise. The code at the
  input where it fails: the status bar shows connected (interval 5, local sink enabled,
  wallet loaded), and the user sets the interval to 0 in the dialog. \<open>update_settings\<close>
  cancels the timer and returns before the lines that set the indicator: the interval is
  0, no timer is live, and the icon is still the connected one.
\<close>

theorem update_settings_leaves_status_connected:
  "(case settings_dialog posix_env (Some interval_to_zero) (fst loaded) (snd loaded) of
      (r, p, w) \<Rightarrow>
        (r, autoexport_interval_seconds p, auto_export_enabled p, live_timers w,
         map_option icon (status_button p)))
   = (None, PInt 0, True, [], Some Status_connected)"
  by (simp add: loaded_eval demo_plugin_eval demo_world_def Let_def
      auto_export_enabled_def settings_dialog_def live_timers_def
      update_settings_def read_settings_def config_get_def set_keys_def interval_to_zero_def
      posix_env_def demo_int_def u_def cancel_def)

lemma tracked_iff:
  "tracked p w \<longleftrightarrow> (\<forall>i<length (threads w). stopped (threads w ! i) \<or> timer p = Some i)"
  by (auto simp: tracked_def list_all_iff)

lemma live_timers_empty_iff:
  "live_timers w = [] \<longleftrightarrow> (\<forall>i<length (threads w). stopped (threads w ! i))"
  by (simp add: live_timers_def filter_empty_conv all_set_conv_all_nth)

lemma cancel_tracked:
  assumes "tracked p w"
  shows "live_timers (case timer p of Some h \<Rightarrow> cancel h w | None \<Rightarrow> w) = []"
proof (cases "timer p")
  case None
  with assms show ?thesis by (auto simp: tracked_iff live_timers_empty_iff)
next
  case (Some h)
  have "stopped (threads (cancel h w) ! i)" if "i < length (threads (cancel h w))" for i
    using that assms Some by (auto simp: tracked_iff nth_threads_cancel)
  with Some show ?thesis by (simp add: live_timers_empty_iff)
qed

lemma live_timers_call_repeatedly:
  "live_timers w = [] \<Longrightarrow> call_repeatedly secs w = (h, w') \<Longrightarrow>
     h = length (threads w) \<and> live_timers w' = [\<lparr>interval = secs, stopped = False\<rparr>] \<and>
     (\<forall>i<length (threads w'). stopped (threads w' ! i) \<or> i = h)"
  by (auto simp: call_repeatedly_def live_timers_def filter_empty_conv nth_append)

text \<open>
  The settings update and the wallet close keep at most one live timer, from every state
  in which the live timers are the one that \<open>self.timer\<close> names: both cancel it first.
\<close>

lemma update_settings_one_timer:
  assumes "tracked p w" and "update_settings ev initial p w = (r, p', w')"
  shows "tracked p' w' \<and> length (live_timers w') \<le> 1"
proof -
  let ?w1 = "case timer p of Some h \<Rightarrow> cancel h w | None \<Rightarrow> w"
  have e: "live_timers ?w1 = []" using cancel_tracked [OF assms(1)] .
  show ?thesis
  proof (cases "initial \<or> wallet p = None \<or> \<not> truthy (autoexport_interval_seconds (read_settings p))")
    case True
    with assms(2) have w': "w' = ?w1" by (auto simp: update_settings_def Let_def)
    with e have "length (live_timers w') \<le> 1" by simp
    moreover from e w' have "tracked p' w'" by (simp add: tracked_iff live_timers_empty_iff)
    ultimately show ?thesis by simp
  next
    case False
    obtain h w2 where c: "call_repeatedly (autoexport_interval_seconds (read_settings p)) ?w1 = (h, w2)"
      by (cases "call_repeatedly (autoexport_interval_seconds (read_settings p)) ?w1") auto
    from False c assms(2) have "w' = w2" and "timer p' = Some h"
      by (auto simp: update_settings_def Let_def split: option.splits if_splits)
    with live_timers_call_repeatedly [OF e c] show ?thesis
      by (auto simp: tracked_iff)
  qed
qed

lemma close_wallet_no_timer:
  assumes "tracked p w" and "close_wallet p w = (p', w')"
  shows "tracked p' w' \<and> live_timers w' = [] \<and> wallet p' = None"
proof -
  from assms(2) have "w' = (case timer p of Some h \<Rightarrow> cancel h w | None \<Rightarrow> w)"
    and "wallet p' = None"
    by (auto simp: close_wallet_def Let_def split: option.splits)
  with cancel_tracked [OF assms(1)] show ?thesis
    by (auto simp: tracked_iff live_timers_empty_iff)
qed

text \<open>
  Claim C4 says that every handler keeps at most one live timer. \<open>load_wallet\<close> starts a
  timer without cancelling the one \<open>self.timer\<close> holds. The code at the input where it
  fails: a wallet is loaded in window 1 (one timer), a second wallet is loaded in window 2:
  two timers are live, and the handle of the first is lost. After both wallets are closed
  no wallet is loaded and the first timer is still live.
\<close>

theorem load_wallet_leaves_two_timers:
  "(case load_wallet (Some empty_wallet) 2 (fst loaded) (snd loaded) of
      (p2, w2) \<Rightarrow>
        (case close_wallet p2 w2 of
           (p3, w3) \<Rightarrow>
             (case close_wallet p3 w3 of
                (p4, w4) \<Rightarrow>
                  (length (live_timers (snd loaded)), length (live_timers w2),
                   wallet p4 = None, length (live_timers w4)))))
   = (1, 2, True, 1)"
  by (simp add: loaded_eval demo_plugin_eval load_wallet_def close_wallet_def call_repeatedly_def
      live_timers_def demo_world_def cancel_def Let_def)

text \<open>
  Claim C5: when the configuration has no interval or the interval 0, a settings update
  (initial or not) starts no timer thread and leaves \<open>self.timer\<close> empty, and a wallet
  load in the plugin it leaves starts none either: it only records the window and the
  wallet.
\<close>

theorem no_timer_when_interval_zero:
  assumes "config p ''autoexport_interval_seconds'' = None \<or>
           config p ''autoexport_interval_seconds'' = Some (PInt 0)"
    and "update_settings ev initial p w = (r, p1, w1)"
  shows "length (threads w1) = length (threads w) \<and> timer p1 = None \<and> r = None \<and>
         load_wallet wl win p1 w' = (p1\<lparr>window := Some win, wallet := wl\<rparr>, w')"
proof -
  have i: "autoexport_interval_seconds (read_settings p) = PInt 0"
    using assms(1) by (auto simp: read_settings_def config_get_def)
  have "update_settings ev initial p w =
      (None, (read_settings p)\<lparr>timer := None\<rparr>,
       (case timer p of Some h \<Rightarrow> cancel h w | None \<Rightarrow> w))"
    using i by (simp add: update_settings_def Let_def)
  with assms(2) have p1: "p1 = (read_settings p)\<lparr>timer := None\<rparr>"
    and w1: "w1 = (case timer p of Some h \<Rightarrow> cancel h w | None \<Rightarrow> w)" and r: "r = None"
    by simp_all
  have "length (threads w1) = length (threads w)"
    using w1 by (simp split: option.splits)
  moreover have "timer p1 = None" using p1 by simp
  moreover have "load_wallet wl win p1 w' = (p1\<lparr>window := Some win, wallet := wl\<rparr>, w')"
    using p1 i by (simp add: load_wallet_def Let_def)
  ultimately show ?thesis using r by simp
qed

theorem no_timer_when_interval_zero_witness:
  "(Map.empty :: string \<rightharpoonup> pyval) ''autoexport_interval_seconds'' = None \<and>
   threads (snd (snd (update_settings posix_env False
      (demo_plugin\<lparr>config := Map.empty, wallet := Some demo_wallet\<rparr>) demo_world))) = [] \<and>
   threads (snd (load_wallet (Some demo_wallet) 1
      (fst (snd (update_settings posix_env False
         (demo_plugin\<lparr>config := Map.empty, wallet := Some demo_wallet\<rparr>) demo_world)))
      demo_world)) = []"
  using no_timer_when_interval_zero
    [of "demo_plugin\<lparr>config := Map.empty, wallet := Some demo_wallet\<rparr>" posix_env False demo_world
      "fst (update_settings posix_env False
         (demo_plugin\<lparr>config := Map.empty, wallet := Some demo_wallet\<rparr>) demo_world)"
      "fst (snd (update_settings posix_env False
         (demo_plugin\<lparr>config := Map.empty, wallet := Some demo_wallet\<rparr>) demo_world))"
      "snd (snd (update_settings posix_env False
         (demo_plugin\<lparr>config := Map.empty, wallet := Some demo_wallet\<rparr>) demo_world))"
      "Some demo_wallet" 1 demo_world]
  by (simp add: demo_world_def)

section \<open>The sinks\<close>

text \<open>
  Claim C6: when the host, the port, the user or the password that the plugin holds is
  empty (\<open>None\<close>, the empty text, 0), \<open>export_csv_ftp\<close> changes nothing: no call to the
  FTP server, no read of the wallet, nothing logged, and it returns.
\<close>

theorem export_csv_ftp_noop:
  assumes "\<not> truthy (autoexport_ftp_host p) \<or> \<not> truthy (autoexport_ftp_port p) \<or>
           \<not> truthy (autoexport_ftp_user p) \<or> \<not> truthy (autoexport_ftp_password p)"
  shows "export_csv_ftp ev p w = w"
  using assms by (auto simp: export_csv_ftp_def export_csv_ftp_try_def)

theorem export_csv_ftp_noop_witness:
  "\<not> truthy (autoexport_ftp_password (ftp_plugin\<lparr>autoexport_ftp_password := PStr []\<rparr>)) \<and>
   export_csv_ftp posix_env (ftp_plugin\<lparr>autoexport_ftp_password := PStr []\<rparr>) demo_world =
     demo_world"
  using export_csv_ftp_noop [of "ftp_plugin\<lparr>autoexport_ftp_password := PStr []\<rparr>" posix_env demo_world]
  by simp

text \<open>
  A key that the configuration lacks reads as the empty text for the host, the user and
  the password, and as 21 for the port.
\<close>

lemma read_settings_ftp_defaults:
  "config p ''autoexport_ftp_host'' = None \<Longrightarrow> \<not> truthy (autoexport_ftp_host (read_settings p))"
  "config p ''autoexport_ftp_user'' = None \<Longrightarrow> \<not> truthy (autoexport_ftp_user (read_settings p))"
  "config p ''autoexport_ftp_password'' = None \<Longrightarrow> \<not> truthy (autoexport_ftp_password (read_settings p))"
  "config p ''autoexport_ftp_port'' = None \<Longrightarrow> autoexport_ftp_port (read_settings p) = PInt 21"
  by (simp_all add: read_settings_def config_get_def)

lemma ftp_call_log:
  "ftp_call ev c w = Inl (x, w') \<Longrightarrow> errors_logged w' = errors_logged w"
  "ftp_call ev c w = Inr w' \<Longrightarrow> errors_logged w' = errors_logged w"
  by (auto simp: ftp_call_def Let_def split: option.splits)

lemma export_csv_ftp_try_log:
  "(case export_csv_ftp_try ev p w of
      Inl (x, w') \<Rightarrow> errors_logged w' = errors_logged w
    | Inr w' \<Rightarrow> errors_logged w' = errors_logged w)"
  unfolding export_csv_ftp_try_def and_then_def Let_def
  by (auto split: sum.splits option.splits dest!: ftp_call_log)

lemma export_csv_ftp_keeps_log:
  "set (errors_logged w) \<subseteq> set (errors_logged (export_csv_ftp ev p w))"
  using export_csv_ftp_try_log [where ev = ev and p = p and w = w]
  by (auto simp: export_csv_ftp_def print_error_def split: sum.splits)

text \<open>
  Claim C7: with both sinks enabled, an exception inside the local sink is caught there
  and its text is logged; \<open>export_csv\<close> then runs the FTP sink on the world the local
  sink left, and the logged text is still there afterwards.
\<close>

theorem export_csv_local_failure_contained:
  assumes "truthy (autoexport_need_export_to_local p)"
    and "truthy (autoexport_need_export_to_ftp p)"
    and "export_csv_local_try ev p w = Inl (e, w')"
  shows "export_csv_local ev p w = print_error (str_exn e) w' \<and>
         export_csv ev p w = export_csv_ftp ev p (export_csv_local ev p w) \<and>
         str_exn e \<in> set (errors_logged (export_csv ev p w))"
proof -
  have l: "export_csv_local ev p w = print_error (str_exn e) w'"
    using assms(3) by (simp add: export_csv_local_def)
  have x: "export_csv ev p w = export_csv_ftp ev p (export_csv_local ev p w)"
    using assms(1,2) by (simp add: export_csv_def)
  have "str_exn e \<in> set (errors_logged (print_error (str_exn e) w'))"
    by (simp add: print_error_def)
  with export_csv_ftp_keeps_log [where w = "print_error (str_exn e) w'" and ev = ev and p = p] l x
  show ?thesis by auto
qed

theorem export_csv_local_failure_contained_witness:
  "truthy (autoexport_need_export_to_local ftp_plugin) \<and>
   truthy (autoexport_need_export_to_ftp ftp_plugin) \<and>
   export_csv_local_try readonly_env ftp_plugin demo_world =
     Inl (OSError (u ''Permission denied''), demo_world\<lparr>wallet_reads := 1\<rparr>) \<and>
   u ''Permission denied'' \<in> set (errors_logged (export_csv readonly_env ftp_plugin demo_world)) \<and>
   export_csv readonly_env ftp_plugin demo_world =
     export_csv_ftp readonly_env ftp_plugin (export_csv_local readonly_env ftp_plugin demo_world)"
proof -
  have h1: "truthy (autoexport_need_export_to_local ftp_plugin)"
    and h2: "truthy (autoexport_need_export_to_ftp ftp_plugin)"
    by (simp_all add: ftp_plugin_eval)
  have h3: "export_csv_local_try readonly_env ftp_plugin demo_world =
     Inl (OSError (u ''Permission denied''), demo_world\<lparr>wallet_reads := 1\<rparr>)"
    by (simp add: export_csv_local_try_def ftp_plugin_eval get_exported_data_def readonly_env_def
        posix_env_def Let_def demo_world_def u_def)
  from export_csv_local_failure_contained [OF h1 h2 h3, unfolded str_exn.simps] h1 h2 h3
  show ?thesis by blast
qed

section \<open>The bytes of the two sinks\<close>

lemma encode_text_append:
  "encode_text enc (a @ b) =
     (case encode_text enc a of
        None \<Rightarrow> None
      | Some x \<Rightarrow> (case encode_text enc b of None \<Rightarrow> None | Some y \<Rightarrow> Some (x @ y)))"
  by (induction a) (auto split: option.splits)

lemma translate_newlines_append:
  "translate_newlines sep (a @ b) = translate_newlines sep a @ translate_newlines sep b"
  by (induction a) auto

lemma translate_newlines_LF: "translate_newlines [LF] s = s"
  by (induction s) auto

text \<open>
  The file that the loop over the rows leaves is the encoding of the whole text, when
  every line can be encoded; otherwise the loop raises.
\<close>

lemma write_rows_ok:
  "encode_text (encode_char ev) (translate_newlines (linesep ev) (csv_text lines)) = Some bs \<Longrightarrow>
     write_rows ev lines acc = Inr (acc @ bs)"
proof (induction lines arbitrary: acc bs)
  case Nil
  then show ?case by (simp add: csv_text_def)
next
  case (Cons line lines)
  from Cons.prems obtain x y where
    x: "encode_text (encode_char ev) (translate_newlines (linesep ev) (writerow line)) = Some x"
    and y: "encode_text (encode_char ev) (translate_newlines (linesep ev) (csv_text lines)) = Some y"
    and bs: "bs = x @ y"
    by (auto simp: csv_text_def translate_newlines_append encode_text_append split: option.splits)
  from Cons.IH [OF y] x bs show ?case by simp
qed

lemma write_rows_fail:
  "encode_text (encode_char ev) (translate_newlines (linesep ev) (csv_text lines)) = None \<Longrightarrow>
     \<exists>e c. write_rows ev lines acc = Inl (e, c)"
proof (induction lines arbitrary: acc)
  case Nil
  then show ?case by (simp add: csv_text_def)
next
  case (Cons line lines)
  show ?case
  proof (cases "encode_text (encode_char ev) (translate_newlines (linesep ev) (writerow line))")
    case None
    then show ?thesis by simp
  next
    case (Some x)
    with Cons.prems have
      "encode_text (encode_char ev) (translate_newlines (linesep ev) (csv_text lines)) = None"
      by (auto simp: csv_text_def translate_newlines_append encode_text_append split: option.splits)
    from Cons.IH [OF this] Some show ?thesis by simp
  qed
qed

text \<open>
  Claim C8 says that for every table the buffer of the FTP sink equals, byte for byte,
  the file that the local sink writes. Both hand the same text to their writer, but the
  local sink's file is a text file of the platform, opened with no encoding and no
  newline argument. Where the line separator is \<open>\r\n\<close>, the file of the table that
  holds only the header differs from the buffer.
\<close>

theorem ftp_buffer_differs_on_windows: "\<not> same_bytes windows_env [header_row]"
  by code_simp

text \<open>
  Claim C8, as the code has it: on a platform whose text files end lines with \<open>\n\<close> and
  are encoded in UTF-8, the buffer of the FTP sink and the file of the local sink are the
  same bytes for every table (and when the text has no UTF-8 encoding, neither is
  completed).
\<close>

theorem ftp_buffer_equals_local_file:
  assumes "linesep ev = [LF]" and "encode_char ev = utf8_char"
  shows "same_bytes ev lines"
proof (cases "ftp_buffer lines")
  case None
  then have "encode_text (encode_char ev) (translate_newlines (linesep ev) (csv_text lines)) = None"
    using assms by (simp add: ftp_buffer_def translate_newlines_LF)
  from write_rows_fail [OF this, of "[]"] None show ?thesis
    by (auto simp: same_bytes_def)
next
  case (Some b)
  then have "encode_text (encode_char ev) (translate_newlines (linesep ev) (csv_text lines)) = Some b"
    using assms by (simp add: ftp_buffer_def translate_newlines_LF)
  from write_rows_ok [OF this, of "[]"] Some show ?thesis
    by (simp add: same_bytes_def)
qed

theorem ftp_buffer_equals_local_file_witness:
  "linesep posix_env = [LF] \<and> encode_char posix_env = utf8_char \<and> same_bytes posix_env demo_table"
  using ftp_buffer_equals_local_file [of posix_env demo_table]
  by (simp add: posix_env_def)

section \<open>Reading the local sink's file back\<close>

lemma parse_unquoted_run:
  "\<not> must_quote s \<Longrightarrow> c = COMMA \<or> c = LF \<Longrightarrow>
     parse IN_FIELD fld flds (s @ c # rest) = parse IN_FIELD (fld @ s) flds (c # rest)"
  by (induction s arbitrary: fld) (auto simp: must_quote_def)

lemma parse_quoted_run:
  "c \<noteq> DQUOTE \<Longrightarrow>
     parse IN_QUOTED_FIELD fld flds (double_quotes s @ DQUOTE # c # rest) =
     parse QUOTE_IN_QUOTED_FIELD (fld @ s) flds (c # rest)"
  by (induction s arbitrary: fld) auto

lemma parse_field_START_FIELD:
  assumes "c = COMMA \<or> c = LF"
  shows "parse START_FIELD [] flds (csv_field s @ c # rest) = after_field c (flds @ [s]) rest"
proof (cases "must_quote s")
  case True
  with assms parse_quoted_run [of c "[]" flds s rest] show ?thesis
    by (auto simp: csv_field_def after_field_def)
next
  case False
  show ?thesis
  proof (cases s)
    case Nil
    with assms False show ?thesis by (auto simp: csv_field_def after_field_def)
  next
    case (Cons x xs)
    with False have x: "x \<noteq> COMMA" "x \<noteq> DQUOTE" "x \<noteq> LF" and xs: "\<not> must_quote xs"
      by (auto simp: must_quote_def)
    from parse_unquoted_run [OF xs assms, of "[x]" flds rest] x Cons False assms
    show ?thesis by (auto simp: csv_field_def after_field_def)
  qed
qed

lemma parse_field_START_RECORD:
  assumes "c = COMMA \<or> c = LF" and "s \<noteq> [] \<or> c = COMMA"
  shows "parse START_RECORD [] [] (csv_field s @ c # rest) = after_field c [s] rest"
proof (cases "must_quote s")
  case True
  with assms parse_quoted_run [of c "[]" "[]" s rest] show ?thesis
    by (auto simp: csv_field_def after_field_def)
next
  case False
  show ?thesis
  proof (cases s)
    case Nil
    with assms False show ?thesis by (auto simp: csv_field_def after_field_def)
  next
    case (Cons x xs)
    with False have x: "x \<noteq> COMMA" "x \<noteq> DQUOTE" "x \<noteq> LF" and xs: "\<not> must_quote xs"
      by (auto simp: must_quote_def)
    from parse_unquoted_run [OF xs assms(1), of "[x]" "[]" rest] x Cons False assms
    show ?thesis by (auto simp: csv_field_def after_field_def)
  qed
qed

lemma parse_fields:
  "ss \<noteq> [] \<Longrightarrow>
     parse START_FIELD [] flds (join_fields (map csv_field ss) @ LF # rest) =
     (flds @ ss) # parse START_RECORD [] [] rest"
proof (induction ss arbitrary: flds rule: join_fields.induct)
  case 1
  then show ?case by simp
next
  case (2 f)
  then show ?case using parse_field_START_FIELD [of LF flds f rest]
    by (simp add: after_field_def)
next
  case (3 f g fs)
  have "parse START_FIELD [] flds (join_fields (map csv_field (f # g # fs)) @ LF # rest) =
        parse START_FIELD [] flds
          (csv_field f @ COMMA # (join_fields (map csv_field (g # fs)) @ LF # rest))"
    by simp
  also have "\<dots> =
        parse START_FIELD [] (flds @ [f]) (join_fields (map csv_field (g # fs)) @ LF # rest)"
    using parse_field_START_FIELD [of COMMA flds f] by (simp add: after_field_def)
  also have "\<dots> = ((flds @ [f]) @ g # fs) # parse START_RECORD [] [] rest"
    using "3.IH" [of "flds @ [f]"] by simp
  finally show ?case by simp
qed

text \<open>The reader takes one written row off the front of the text.\<close>

lemma parse_writerow:
  "parse START_RECORD [] [] (writerow line @ rest) =
     map field_text line # parse START_RECORD [] [] rest"
proof (cases "map field_text line = [[]]")
  case True
  then show ?thesis by (simp add: writerow_def)
next
  case False
  show ?thesis
  proof (cases "map field_text line")
    case Nil
    then show ?thesis by (simp add: writerow_def)
  next
    case (Cons s ss)
    show ?thesis
    proof (cases ss)
      case Nil
      with Cons False have "s \<noteq> []" by simp
      with parse_field_START_RECORD [of LF s rest] Cons Nil False show ?thesis
        by (simp add: writerow_def after_field_def map_map [symmetric] del: map_map)
    next
      case (Cons g gs)
      have "parse START_RECORD [] [] (writerow line @ rest) =
            parse START_RECORD [] []
              (csv_field s @ COMMA # (join_fields (map csv_field (g # gs)) @ LF # rest))"
        using False \<open>map field_text line = s # ss\<close> Cons
        by (simp add: writerow_def map_map [symmetric] del: map_map)
      also have "\<dots> =
            parse START_FIELD [] [s] (join_fields (map csv_field (g # gs)) @ LF # rest)"
        using parse_field_START_RECORD [of COMMA s] by (simp add: after_field_def)
      also have "\<dots> = ([s] @ g # gs) # parse START_RECORD [] [] rest"
        using parse_fields [of "g # gs" "[s]" rest] by simp
      finally show ?thesis using \<open>map field_text line = s # ss\<close> Cons by simp
    qed
  qed
qed

lemma parse_csv_text:
  "parse START_RECORD [] [] (csv_text lines) = map (map field_text) lines"
proof (induction lines)
  case Nil
  then show ?case by (simp add: csv_text_def)
next
  case (Cons line lines)
  then show ?case using parse_writerow [of line "csv_text lines"]
    by (simp add: csv_text_def)
qed

lemma universal_newlines_Cons:
  "c \<noteq> CR \<Longrightarrow> universal_newlines (c # cs) = c # universal_newlines cs"
  by (cases cs) auto

lemma universal_newlines_id: "CR \<notin> set s \<Longrightarrow> universal_newlines s = s"
  by (induction s) (auto simp: universal_newlines_Cons)

lemma universal_translate_CRLF:
  "CR \<notin> set s \<Longrightarrow> universal_newlines (translate_newlines [CR, LF] s) = s"
  by (induction s) (auto simp: universal_newlines_Cons)

lemma universal_translate:
  assumes "sep = [LF] \<or> sep = [CR, LF]" and "CR \<notin> set s"
  shows "universal_newlines (translate_newlines sep s) = s"
  using assms by (auto simp: translate_newlines_LF universal_newlines_id universal_translate_CRLF)

lemma set_double_quotes: "set (double_quotes s) = set s"
  by (induction s) auto

lemma CR_csv_field: "CR \<notin> set s \<Longrightarrow> CR \<notin> set (csv_field s)"
  by (simp add: csv_field_def set_double_quotes)

lemma CR_join_fields: "\<forall>f\<in>set fs. CR \<notin> set f \<Longrightarrow> CR \<notin> set (join_fields fs)"
  by (induction fs rule: join_fields.induct) simp_all

lemma CR_writerow:
  assumes "\<forall>v\<in>set line. CR \<notin> set (field_text v)"
  shows "CR \<notin> set (writerow line)"
proof -
  have "\<forall>f\<in>set (map (csv_field \<circ> field_text) line). CR \<notin> set f"
    using assms by (simp add: CR_csv_field)
  from CR_join_fields [OF this] show ?thesis by (simp add: writerow_def)
qed

lemma CR_csv_text:
  "\<forall>line\<in>set lines. \<forall>v\<in>set line. CR \<notin> set (field_text v) \<Longrightarrow> CR \<notin> set (csv_text lines)"
proof (induction lines)
  case Nil
  then show ?case by (simp add: csv_text_def)
next
  case (Cons line lines)
  then have "CR \<notin> set (writerow line)" and "CR \<notin> set (csv_text lines)"
    by (simp_all add: CR_writerow)
  then show ?case by (simp add: csv_text_def)
qed

text \<open>
  Claim C9 says that the rows read back equal the original table, field for field, also
  where a field is an integer. A reader returns text: the confirmations \<open>3\<close> of
  \<open>demo_table\<close> come back as the text \<open>3\<close>, so the rows read are not the table.
\<close>

theorem local_round_trip_returns_text:
  "map_option (map (map PStr)) (local_round_trip posix_env ascii_decode demo_table) \<noteq>
     Some demo_table"
  by code_simp

text \<open>
  A carriage return inside a field is written as it is and not quoted (the line
  terminator is \<open>\n\<close>), and the text file reads it back as the end of a line.
\<close>

lemma carriage_return_splits_row:
  "local_round_trip posix_env ascii_decode [[PStr [97, CR, 98], PInt 1]] =
     Some [[[97]], [[98], [49]]]"
  by code_simp

text \<open>
  Claim C9, as the code has it: for every table whose fields hold no carriage return,
  written by the local sink to a text file of the platform (line separator \<open>\n\<close> or
  \<open>\r\n\<close>) and decoded as it was encoded, the reader returns the rows of the table with
  each field as the text the writer made of it: a string as itself (commas, quotes and
  newlines included), an integer as its decimal text, \<open>None\<close> as the empty text.
\<close>

theorem local_round_trip_field_texts:
  assumes "linesep ev = [LF] \<or> linesep ev = [CR, LF]"
    and "\<forall>line\<in>set lines. \<forall>v\<in>set line. CR \<notin> set (field_text v)"
    and "encode_text (encode_char ev) (translate_newlines (linesep ev) (csv_text lines)) = Some bs"
    and "dec bs = Some (translate_newlines (linesep ev) (csv_text lines))"
  shows "local_round_trip ev dec lines = Some (map (map field_text) lines)"
proof -
  have "write_rows ev lines [] = Inr bs"
    using write_rows_ok [OF assms(3), of "[]"] by simp
  moreover have "csv_reader (translate_newlines (linesep ev) (csv_text lines)) =
      map (map field_text) lines"
    using universal_translate [OF assms(1) CR_csv_text [OF assms(2)]]
    by (simp add: csv_reader_def parse_csv_text)
  ultimately show ?thesis using assms(4) by (simp add: local_round_trip_def)
qed

theorem local_round_trip_field_texts_witness:
  "linesep posix_env = [LF] \<and>
   list_all (list_all (\<lambda>v. CR \<notin> set (field_text v))) demo_table \<and>
   local_round_trip posix_env ascii_decode demo_table =
     Some [[u ''transaction_hash'', u ''label'', u ''confirmations'', u ''value'', u ''timestamp''],
           [u ''abc123'', quoted_label, u ''3'', u ''5000'', u ''2023-07-22 04:26'']]"
proof -
  have h1: "linesep posix_env = [LF] \<or> linesep posix_env = [CR, LF]"
    by (simp add: posix_env_def)
  have h2: "\<forall>line\<in>set demo_table. \<forall>v\<in>set line. CR \<notin> set (field_text v)"
    by (simp add: demo_table_def header_row_def quoted_label_def u_def str_int_def digits.simps)
  have h3: "encode_text (encode_char posix_env)
      (translate_newlines (linesep posix_env) (csv_text demo_table)) =
      Some (map of_nat (csv_text demo_table))"
    by code_simp
  have h4: "ascii_decode (map of_nat (csv_text demo_table)) =
      Some (translate_newlines (linesep posix_env) (csv_text demo_table))"
    by code_simp
  have r: "map (map field_text) demo_table =
      [[u ''transaction_hash'', u ''label'', u ''confirmations'', u ''value'', u ''timestamp''],
       [u ''abc123'', quoted_label, u ''3'', u ''5000'', u ''2023-07-22 04:26'']]"
    by (simp add: demo_table_def header_row_def str_int_def digits.simps u_def)
  from local_round_trip_field_texts [where dec = ascii_decode, OF h1 h2 h3 h4] h1 h2 r
  show ?thesis by (simp add: posix_env_def list_all_iff)
qed

section \<open>Overwriting an existing file\<close>

lemma export_csv_local_writes:
  assumes "autoexport_local_path p = PStr dir" and "dir \<noteq> []"
    and "get_exported_data ev p = Inr lines"
    and "open_refused ev (path_join ev dir (clock w @ u ''.csv'')) = None"
    and "encode_text (encode_char ev) (translate_newlines (linesep ev) (csv_text lines)) = Some content"
  shows "export_csv_local ev p w =
     w\<lparr>wallet_reads := Suc (wallet_reads w),
       files := (files w)(path_join ev dir (clock w @ u ''.csv'') \<mapsto> content)\<rparr>"
  using assms write_rows_ok [OF assms(5), of "[]"]
  by (simp add: export_csv_local_def export_csv_local_try_def Let_def)

text \<open>
  Claim C10: when the local path is not empty and a file with the generated name already
  exists (whatever it holds), and the file can be opened and the text of the current table
  encoded, \<open>export_csv_local\<close> leaves in that file exactly the encoded CSV text of the
  current table, nothing of the old content, and logs no error.
\<close>

theorem export_csv_local_overwrites:
  assumes "autoexport_local_path p = PStr dir" and "dir \<noteq> []"
    and "get_exported_data ev p = Inr lines"
    and "open_refused ev (path_join ev dir (clock w @ u ''.csv'')) = None"
    and "encode_text (encode_char ev) (translate_newlines (linesep ev) (csv_text lines)) = Some content"
    and "files w (path_join ev dir (clock w @ u ''.csv'')) = Some old"
  shows "files (export_csv_local ev p w) (path_join ev dir (clock w @ u ''.csv'')) = Some content \<and>
         errors_logged (export_csv_local ev p w) = errors_logged w"
  by (simp add: export_csv_local_writes [OF assms(1-5)])

lemma first_export_eval:
  "first_export =
     demo_world\<lparr>wallet_reads := 1,
       files := [csv_path \<mapsto> map of_nat (csv_text demo_history_table)]\<rparr>"
proof -
  have 1: "autoexport_local_path ftp_plugin = PStr (u ''/tmp/out'')" and 2: "u ''/tmp/out'' \<noteq> []"
    by (simp_all add: ftp_plugin_eval u_def)
  have 4: "open_refused posix_env
      (path_join posix_env (u ''/tmp/out'') (clock demo_world @ u ''.csv'')) = None"
    by (simp add: posix_env_def)
  have 5: "encode_text (encode_char posix_env)
      (translate_newlines (linesep posix_env) (csv_text demo_history_table)) =
      Some (map of_nat (csv_text demo_history_table))"
    by code_simp
  have 6: "path_join posix_env (u ''/tmp/out'') (clock demo_world @ u ''.csv'') = csv_path"
    by code_simp
  show ?thesis
    unfolding first_export_def export_csv_local_writes [OF 1 2 get_exported_data_demo 4 5] 6
    by (simp add: demo_world_def)
qed

theorem export_csv_local_overwrites_witness:
  "files first_export csv_path = Some (map of_nat (csv_text demo_history_table)) \<and>
   files (export_csv_local posix_env (ftp_plugin\<lparr>wallet := Some empty_wallet\<rparr>) first_export)
      csv_path =
     Some (map of_nat (u ''transaction_hash,label,confirmations,value,timestamp'' @ [LF])) \<and>
   errors_logged (export_csv_local posix_env (ftp_plugin\<lparr>wallet := Some empty_wallet\<rparr>) first_export)
     = []"
proof -
  have 1: "autoexport_local_path (ftp_plugin\<lparr>wallet := Some empty_wallet\<rparr>) = PStr (u ''/tmp/out'')"
    and 2: "u ''/tmp/out'' \<noteq> []"
    by (simp_all add: ftp_plugin_eval u_def)
  have 3: "get_exported_data posix_env (ftp_plugin\<lparr>wallet := Some empty_wallet\<rparr>) = Inr [header_row]"
    by (simp add: get_exported_data_def empty_wallet_def)
  have 6: "path_join posix_env (u ''/tmp/out'') (clock first_export @ u ''.csv'') = csv_path"
    unfolding first_export_eval by code_simp
  have 4: "open_refused posix_env
      (path_join posix_env (u ''/tmp/out'') (clock first_export @ u ''.csv'')) = None"
    by (simp add: posix_env_def)
  have 5: "encode_text (encode_char posix_env)
      (translate_newlines (linesep posix_env) (csv_text [header_row])) =
      Some (map of_nat (u ''transaction_hash,label,confirmations,value,timestamp'' @ [LF]))"
    by code_simp
  have 7: "files first_export
      (path_join posix_env (u ''/tmp/out'') (clock first_export @ u ''.csv'')) =
      Some (map of_nat (csv_text demo_history_table))"
    unfolding 6 by (simp add: first_export_eval)
  from export_csv_local_overwrites [OF 1 2 3 4 5 7] 7 show ?thesis
    unfolding 6 by (simp add: first_export_eval demo_world_def)
qed

end
